theory Spec2Isabelle
  imports Complex_Main "HOL-Library.List_Lexorder" "HOL-Library.Multiset"
begin

section \<open>Values of the host language and of the storage engine\<close>

text \<open>
  A Python \<open>str\<close> and an SQLite \<open>TEXT\<close> value are sequences of Unicode code points.
  They are modelled as lists of natural numbers, so that \<open>length\<close> counts characters
  and the order \<open>\<le>\<close> on lists (lexicographic) is the engine's BINARY collation.
  The engine's C-string corner cases (an embedded NUL) and its resource limits are
  outside the model.  Python floats are modelled by exact rationals.
\<close>

type_synonym str = "nat list"

definition u :: "string \<Rightarrow> str" where
  "u s = map of_char s"


definition st_ready :: str where
  \<comment> \<open>the label of the status ReadyForPickup\<close>
  "st_ready = [1043, 1086, 1090, 1086, 1074, 1072, 32, 1082, 32, 1074, 1099, 1076, 1072, 1095, 1077]"

definition st_completed :: str where
  \<comment> \<open>the label of the status Completed\<close>
  "st_completed = [1047, 1072, 1074, 1077, 1088, 1096, 1077, 1085, 1072]"

datatype error = ValueError | TypeError | StatisticsError | ZeroDivisionError | DatabaseError

datatype sqlval = Null | IntV int | TextV str

fun truthy :: "sqlval \<Rightarrow> bool" where
  \<comment> \<open>Python's truth value of a fetched cell\<close>
  "truthy Null = False"
| "truthy (IntV i) = (i \<noteq> 0)"
| "truthy (TextV t) = (t \<noteq> [])"

fun opt_cell :: "str option \<Rightarrow> sqlval" where
  "opt_cell None = Null"
| "opt_cell (Some t) = TextV t"

subsection \<open>Rounding and the mean\<close>

definition round_half_even :: "rat \<Rightarrow> int" where
  "round_half_even x =
     (let f = \<lfloor>x\<rfloor>; d = x - of_int f
      in if d < 1 / 2 then f
         else if 1 / 2 < d then f + 1
         else if even f then f else f + 1)"

definition round2 :: "rat \<Rightarrow> rat" where
  \<comment> \<open>\<open>round(x, 2)\<close>\<close>
  "round2 x = of_int (round_half_even (x * 100)) / 100"

definition mean :: "rat list \<Rightarrow> error + rat" where
  \<comment> \<open>\<open>statistics.mean\<close>, which raises on an empty sample\<close>
  "mean xs = (if xs = [] then Inl StatisticsError
              else Inr (sum_list xs / of_nat (length xs)))"

subsection \<open>Timestamps\<close>

text \<open>
  A naive \<open>datetime\<close> without microseconds is the number of seconds since
  0001-01-01 00:00:00.  The library parser \<open>datetime.strptime\<close> is a parameter of the
  analytics functions: a function from the format and the string to the parsed
  timestamp, \<open>None\<close> where the library raises \<open>ValueError\<close>.  The instance
  \<open>strptime_iso\<close> below parses the zero-padded spelling that \<open>strftime\<close> writes and
  is used to evaluate the functions on concrete data.
\<close>

datatype fmt = Fmt_datetime | Fmt_date

type_synonym parser = "fmt \<Rightarrow> str \<Rightarrow> int option"

definition is_leap :: "int \<Rightarrow> bool" where
  "is_leap y = (y mod 4 = 0 \<and> (y mod 100 \<noteq> 0 \<or> y mod 400 = 0))"

definition days_in_month :: "int \<Rightarrow> int \<Rightarrow> int" where
  "days_in_month y m =
     (if m = 2 then (if is_leap y then 29 else 28)
      else if m = 4 \<or> m = 6 \<or> m = 9 \<or> m = 11 then 30 else 31)"

definition days_before_year :: "int \<Rightarrow> int" where
  "days_before_year y = (y - 1) * 365 + (y - 1) div 4 - (y - 1) div 100 + (y - 1) div 400"

definition days_before_month :: "int \<Rightarrow> int \<Rightarrow> int" where
  "days_before_month y m = sum_list (map (days_in_month y) [1..m - 1])"

definition ymd_seconds :: "int \<Rightarrow> int \<Rightarrow> int \<Rightarrow> int" where
  "ymd_seconds y m d = (days_before_year y + days_before_month y m + d - 1) * 86400"

definition is_digit :: "nat \<Rightarrow> bool" where
  "is_digit c = (48 \<le> c \<and> c \<le> 57)"

definition num2 :: "nat \<Rightarrow> nat \<Rightarrow> int" where
  "num2 a b = int (10 * (a - 48) + (b - 48))"

definition num4 :: "nat \<Rightarrow> nat \<Rightarrow> nat \<Rightarrow> nat \<Rightarrow> int" where
  "num4 a b c d = int (1000 * (a - 48) + 100 * (b - 48) + 10 * (c - 48) + (d - 48))"

fun parse_date :: "str \<Rightarrow> int option" where
  "parse_date [y1, y2, y3, y4, s1, m1, m2, s2, d1, d2] =
     (let y = num4 y1 y2 y3 y4; m = num2 m1 m2; d = num2 d1 d2
      in if list_all is_digit [y1, y2, y3, y4, m1, m2, d1, d2] \<and> s1 = 45 \<and> s2 = 45
            \<and> 1 \<le> y \<and> 1 \<le> m \<and> m \<le> 12 \<and> 1 \<le> d \<and> d \<le> days_in_month y m
         then Some (ymd_seconds y m d) else None)"
| "parse_date _ = None"

fun parse_time :: "str \<Rightarrow> int option" where
  "parse_time [h1, h2, s1, m1, m2, s2, c1, c2] =
     (let h = num2 h1 h2; m = num2 m1 m2; s = num2 c1 c2
      in if list_all is_digit [h1, h2, m1, m2, c1, c2] \<and> s1 = 58 \<and> s2 = 58
            \<and> h < 24 \<and> m < 60 \<and> s < 60
         then Some (h * 3600 + m * 60 + s) else None)"
| "parse_time _ = None"

fun strptime_iso :: parser where
  "strptime_iso Fmt_date t = parse_date t"
| "strptime_iso Fmt_datetime t =
     (if length t = 19 \<and> t ! 10 = 32
      then (case parse_date (take 10 t) of
              None \<Rightarrow> None
            | Some d \<Rightarrow> (case parse_time (drop 11 t) of
                          None \<Rightarrow> None
                        | Some s \<Rightarrow> Some (d + s)))
      else None)"

fun strptime :: "parser \<Rightarrow> sqlval \<Rightarrow> fmt \<Rightarrow> error + int" where
  \<comment> \<open>\<open>datetime.strptime(cell, format)\<close> on a fetched cell\<close>
  "strptime P (TextV t) f = (case P f t of None \<Rightarrow> Inl ValueError | Some s \<Rightarrow> Inr s)"
| "strptime P _ f = Inl TypeError"

definition hours_between :: "int \<Rightarrow> int \<Rightarrow> rat" where
  \<comment> \<open>\<open>(completed - created).total_seconds() / 3600\<close>\<close>
  "hours_between created completed = of_int (completed - created) / 3600"

section \<open>Schema and storage\<close>

record request =
  rid :: int
  created_date :: str
  device_type :: str
  device_model :: str
  problem_description :: str
  client_name :: str
  client_phone :: str
  status :: str
  master_name :: "str option"
  deadline :: "str option"
  completion_date :: "str option"
  updated_date :: "str option"

record comment =
  cid :: int
  request_id :: int
  comment_text :: str
  parts_ordered :: "str option"
  added_date :: str
  author :: str

text \<open>
  The tables in the order of their rows; \<open>request_seq\<close> and \<open>comment_seq\<close> are the
  greatest identifiers that \<open>AUTOINCREMENT\<close> has generated so far.
\<close>

record database =
  requests :: "request list"
  comments :: "comment list"
  request_seq :: int
  comment_seq :: int

definition empty_db :: database where
  "empty_db = \<lparr>requests = [], comments = [], request_seq = 0, comment_seq = 0\<rparr>"

datatype connection = Broken | Live database

fun cursor :: "connection \<Rightarrow> error + database" where
  \<comment> \<open>a query on a connection that fails raises \<open>sqlite3.Error\<close>\<close>
  "cursor Broken = Inl DatabaseError"
| "cursor (Live db) = Inr db"

definition row_of :: "request \<Rightarrow> sqlval list" where
  \<comment> \<open>a row of \<open>SELECT * FROM requests\<close>: the columns in the order of \<open>CREATE TABLE\<close>\<close>
  "row_of r =
     [IntV (rid r), TextV (created_date r), TextV (device_type r), TextV (device_model r),
      TextV (problem_description r), TextV (client_name r), TextV (client_phone r),
      TextV (status r), opt_cell (master_name r), opt_cell (deadline r),
      opt_cell (completion_date r), opt_cell (updated_date r)]"

section \<open>Analytics: average repair time\<close>

definition completed_requests :: "database \<Rightarrow> (sqlval \<times> sqlval) list" where
  \<comment> \<open>\<open>SELECT created_date, completion_date FROM requests WHERE completion_date IS NOT NULL\<close>\<close>
  "completed_requests db =
     map (\<lambda>r. (TextV (created_date r), opt_cell (completion_date r)))
       (filter (\<lambda>r. completion_date r \<noteq> None) (requests db))"

fun repair_times :: "parser \<Rightarrow> (sqlval \<times> sqlval) list \<Rightarrow> error + rat list" where
  \<comment> \<open>the loop over the fetched rows; the first row that fails to parse raises\<close>
  "repair_times P [] = Inr []"
| "repair_times P ((created_str, completed_str) # rows) =
     (case strptime P created_str Fmt_datetime of
        Inl e \<Rightarrow> Inl e
      | Inr created \<Rightarrow>
         (case strptime P completed_str Fmt_datetime of
            Inl e \<Rightarrow> Inl e
          | Inr completed \<Rightarrow>
             (case repair_times P rows of
                Inl e \<Rightarrow> Inl e
              | Inr hs \<Rightarrow> Inr (hours_between created completed # hs))))"

definition average_repair_time_body :: "parser \<Rightarrow> connection \<Rightarrow> error + rat" where
  \<comment> \<open>the body of the \<open>try\<close> block\<close>
  "average_repair_time_body P conn =
     (case cursor conn of
        Inl e \<Rightarrow> Inl e
      | Inr db \<Rightarrow>
         (if completed_requests db = [] then Inr 0
          else (case repair_times P (completed_requests db) of
                  Inl e \<Rightarrow> Inl e
                | Inr hs \<Rightarrow> (case mean hs of Inl e \<Rightarrow> Inl e | Inr a \<Rightarrow> Inr (round2 a)))))"

definition calculate_average_repair_time :: "parser \<Rightarrow> connection \<Rightarrow> rat" where
  \<comment> \<open>\<open>except Exception: return 0.0\<close>\<close>
  "calculate_average_repair_time P conn =
     (case average_repair_time_body P conn of Inl e \<Rightarrow> 0 | Inr a \<Rightarrow> a)"


section \<open>Analytics: statistics by device\<close>

record dstats =
  ds_total :: nat
  ds_completed :: nat
  ds_repair_times :: "rat list"
  ds_problems :: "(sqlval \<times> nat) list"

record device_result =
  dr_total_requests :: nat
  dr_completed_requests :: nat
  dr_average_repair_time_hours :: rat
  dr_most_common_problem :: sqlval
  dr_completion_rate :: rat

definition no_data :: str where
  \<comment> \<open>the label written when a group has no problem recorded\<close>
  "no_data = [1053, 1077, 1090, 32, 1076, 1072, 1085, 1085, 1099, 1093]"

definition device_rows :: "database \<Rightarrow> sqlval list list" where
  \<comment> \<open>\<open>SELECT device_type, status, problem_description, created_date, completion_date
      FROM requests ORDER BY device_type\<close>\<close>
  "device_rows db =
     map (\<lambda>r. [TextV (device_type r), TextV (status r), TextV (problem_description r),
               TextV (created_date r), opt_cell (completion_date r)])
       (sort_key device_type (requests db))"

fun count_problem :: "sqlval \<Rightarrow> (sqlval \<times> nat) list \<Rightarrow> (sqlval \<times> nat) list" where
  \<comment> \<open>one more occurrence of the problem, in a dictionary that keeps insertion order\<close>
  "count_problem problem [] = [(problem, 1)]"
| "count_problem problem ((k, n) # rest) =
     (if k = problem then (k, n + 1) # rest else (k, n) # count_problem problem rest)"

fun dict_set :: "sqlval \<Rightarrow> dstats \<Rightarrow> (sqlval \<times> dstats) list \<Rightarrow> (sqlval \<times> dstats) list" where
  "dict_set k v [] = [(k, v)]"
| "dict_set k v ((k', v') # rest) =
     (if k' = k then (k', v) # rest else (k', v') # dict_set k v rest)"

definition device_step :: "parser \<Rightarrow> sqlval list \<Rightarrow> dstats \<Rightarrow> error + dstats" where
  \<comment> \<open>the body of the loop on the statistics of the row's device\<close>
  "device_step P request st =
     (let status_cell = request ! 1; problem = request ! 2;
          created_str = request ! 3; completed_str = request ! 4;
          st1 = st\<lparr>ds_total := ds_total st + 1,
                   ds_problems := count_problem problem (ds_problems st)\<rparr>
      in if status_cell = TextV st_completed \<and> truthy completed_str
         then (case strptime P created_str Fmt_datetime of
                 Inl e \<Rightarrow> Inl e
               | Inr created \<Rightarrow>
                  (case strptime P completed_str Fmt_datetime of
                     Inl e \<Rightarrow> Inl e
                   | Inr completed \<Rightarrow>
                      Inr (st1\<lparr>ds_completed := ds_completed st1 + 1,
                               ds_repair_times :=
                                 ds_repair_times st1 @ [hours_between created completed]\<rparr>)))
         else Inr st1)"

fun device_loop ::
  "parser \<Rightarrow> sqlval list list \<Rightarrow> (sqlval \<times> dstats) list \<Rightarrow> error + (sqlval \<times> dstats) list" where
  "device_loop P [] device_stats = Inr device_stats"
| "device_loop P (request # rest) device_stats =
     (let st = (case map_of device_stats (request ! 0) of
                  None \<Rightarrow> \<lparr>ds_total = 0, ds_completed = 0, ds_repair_times = [], ds_problems = []\<rparr>
                | Some st \<Rightarrow> st)
      in case device_step P request st of
           Inl e \<Rightarrow> Inl e
         | Inr st' \<Rightarrow> device_loop P rest (dict_set (request ! 0) st' device_stats))"

fun max_by_count :: "sqlval \<times> nat \<Rightarrow> (sqlval \<times> nat) list \<Rightarrow> sqlval \<times> nat" where
  \<comment> \<open>\<open>max(items, key=count)\<close>: the first item among those of the greatest count\<close>
  "max_by_count best [] = best"
| "max_by_count best (x # xs) = max_by_count (if snd best < snd x then x else best) xs"

definition device_result_of :: "dstats \<Rightarrow> error + device_result" where
  "device_result_of st =
     (let most_common = (case ds_problems st of
                           [] \<Rightarrow> TextV no_data
                         | x # xs \<Rightarrow> fst (max_by_count x xs));
          rate = (if ds_total st > 0
                  then round2 (of_nat (ds_completed st) / of_nat (ds_total st) * 100) else 0)
      in case (if ds_repair_times st \<noteq> []
               then (case mean (ds_repair_times st) of Inl e \<Rightarrow> Inl e | Inr a \<Rightarrow> Inr (round2 a))
               else Inr 0) of
           Inl e \<Rightarrow> Inl e
         | Inr avg_time \<Rightarrow>
            Inr \<lparr>dr_total_requests = ds_total st, dr_completed_requests = ds_completed st,
                 dr_average_repair_time_hours = avg_time, dr_most_common_problem = most_common,
                 dr_completion_rate = rate\<rparr>)"

fun device_results :: "(sqlval \<times> dstats) list \<Rightarrow> error + (sqlval \<times> device_result) list" where
  "device_results [] = Inr []"
| "device_results ((k, st) # rest) =
     (case device_result_of st of
        Inl e \<Rightarrow> Inl e
      | Inr res \<Rightarrow> (case device_results rest of Inl e \<Rightarrow> Inl e | Inr rs \<Rightarrow> Inr ((k, res) # rs)))"

definition statistics_by_device_body ::
  "parser \<Rightarrow> connection \<Rightarrow> error + (sqlval \<times> device_result) list" where
  "statistics_by_device_body P conn =
     (case cursor conn of
        Inl e \<Rightarrow> Inl e
      | Inr db \<Rightarrow>
         (case device_loop P (device_rows db) [] of
            Inl e \<Rightarrow> Inl e
          | Inr device_stats \<Rightarrow> device_results device_stats))"

definition calculate_request_statistics_by_device ::
  "parser \<Rightarrow> connection \<Rightarrow> (sqlval \<times> device_result) list" where
  \<comment> \<open>\<open>except Exception: return {}\<close>\<close>
  "calculate_request_statistics_by_device P conn =
     (case statistics_by_device_body P conn of Inl e \<Rightarrow> [] | Inr res \<Rightarrow> res)"

section \<open>Analytics: status distribution\<close>

definition status_counts :: "database \<Rightarrow> (str \<times> nat) list" where
  \<comment> \<open>\<open>SELECT status, COUNT(*) FROM requests GROUP BY status ORDER BY COUNT(*) DESC\<close>;
      the engine chooses the order of groups with equal counts\<close>
  "status_counts db =
     (let ss = map status (requests db)
      in sort_key (\<lambda>(s, c). - int c) (map (\<lambda>s. (s, count_list ss s)) (remdups ss)))"

definition percentage :: "nat \<Rightarrow> nat \<Rightarrow> rat" where
  \<comment> \<open>\<open>round(count / total * 100, 2)\<close>\<close>
  "percentage c total_rows = round2 (of_nat c / of_nat total_rows * 100)"

definition status_distribution_body :: "connection \<Rightarrow> error + (str \<times> nat \<times> rat) list" where
  "status_distribution_body conn =
     (case cursor conn of
        Inl e \<Rightarrow> Inl e
      | Inr db \<Rightarrow>
         (let total_rows = length (requests db)
          in if total_rows = 0 then Inr []
             else Inr (map (\<lambda>(s, c). (s, c, percentage c total_rows)) (status_counts db))))"

definition calculate_status_distribution :: "connection \<Rightarrow> (str \<times> nat \<times> rat) list" where
  \<comment> \<open>\<open>except Exception: return []\<close>\<close>
  "calculate_status_distribution conn =
     (case status_distribution_body conn of Inl e \<Rightarrow> [] | Inr res \<Rightarrow> res)"

section \<open>Analytics: performance metrics\<close>

definition given :: "str option \<Rightarrow> bool" where
  \<comment> \<open>the truth value of an optional string argument\<close>
  "given a = (case a of None \<Rightarrow> False | Some s \<Rightarrow> s \<noteq> [])"

definition fstr :: "str option \<Rightarrow> str" where
  \<comment> \<open>the argument as an f-string writes it\<close>
  "fstr a = (case a of None \<Rightarrow> u ''None'' | Some s \<Rightarrow> s)"

definition date_filter :: "str option \<Rightarrow> str option \<Rightarrow> request \<Rightarrow> bool" where
  \<comment> \<open>the \<open>WHERE\<close> clause that the arguments select\<close>
  "date_filter start_date end_date r =
     (if given start_date \<and> given end_date
      then fstr start_date @ u '' 00:00:00'' \<le> created_date r
           \<and> created_date r \<le> fstr end_date @ u '' 23:59:59''
      else if given start_date then fstr start_date @ u '' 00:00:00'' \<le> created_date r
      else if given end_date then created_date r \<le> fstr end_date @ u '' 23:59:59''
      else True)"

definition filtered_requests :: "database \<Rightarrow> str option \<Rightarrow> str option \<Rightarrow> request list" where
  "filtered_requests db start_date end_date =
     filter (date_filter start_date end_date) (requests db)"

record mstats =
  ms_completed :: nat
  ms_total :: nat
  ms_efficiency :: "rat option"

datatype pyval = PInt int | PFloat rat | PDict "(sqlval \<times> mstats) list"

type_synonym metrics = "(string \<times> pyval) list"

definition requests_per_day :: "parser \<Rightarrow> str option \<Rightarrow> str option \<Rightarrow> nat \<Rightarrow> error + pyval" where
  "requests_per_day P start_date end_date total_requests =
     (if given start_date \<and> given end_date
      then (case strptime P (TextV (fstr start_date)) Fmt_date of
              Inl e \<Rightarrow> Inl e
            | Inr start_dt \<Rightarrow>
               (case strptime P (TextV (fstr end_date)) Fmt_date of
                  Inl e \<Rightarrow> Inl e
                | Inr end_dt \<Rightarrow>
                   (let days = (end_dt - start_dt) div 86400 + 1
                    in if days = 0 then Inl ZeroDivisionError
                       else Inr (PFloat (round2 (of_nat total_requests / of_int days))))))
      else Inr (PInt (int total_requests)))"

fun processing_times :: "parser \<Rightarrow> sqlval list list \<Rightarrow> error + rat list" where
  \<comment> \<open>the loop over \<open>req[9]\<close> and \<open>req[1]\<close>\<close>
  "processing_times P [] = Inr []"
| "processing_times P (req # reqs) =
     (if truthy (req ! 9)
      then (case strptime P (req ! 1) Fmt_datetime of
              Inl e \<Rightarrow> Inl e
            | Inr created \<Rightarrow>
               (case strptime P (req ! 9) Fmt_datetime of
                  Inl e \<Rightarrow> Inl e
                | Inr completed \<Rightarrow>
                   (case processing_times P reqs of
                      Inl e \<Rightarrow> Inl e
                    | Inr hs \<Rightarrow> Inr (hours_between created completed # hs))))
      else processing_times P reqs)"

definition avg_processing_time :: "rat list \<Rightarrow> error + pyval" where
  "avg_processing_time hs =
     (if hs = [] then Inr (PInt 0)
      else (case mean hs of Inl e \<Rightarrow> Inl e | Inr a \<Rightarrow> Inr (PFloat (round2 a))))"

fun count_master :: "sqlval \<Rightarrow> bool \<Rightarrow> (sqlval \<times> mstats) list \<Rightarrow> (sqlval \<times> mstats) list" where
  \<comment> \<open>one pass of the loop body on a dictionary that keeps insertion order\<close>
  "count_master master done [] =
     [(master, \<lparr>ms_completed = (if done then 1 else 0), ms_total = 1, ms_efficiency = None\<rparr>)]"
| "count_master master done ((k, st) # rest) =
     (if k = master
      then (k, st\<lparr>ms_total := ms_total st + 1,
                 ms_completed := (if done then ms_completed st + 1 else ms_completed st)\<rparr>) # rest
      else (k, st) # count_master master done rest)"

fun master_loop :: "sqlval list list \<Rightarrow> (sqlval \<times> mstats) list \<Rightarrow> (sqlval \<times> mstats) list" where
  \<comment> \<open>the loop over \<open>req[8]\<close> and \<open>req[5]\<close>\<close>
  "master_loop [] acc = acc"
| "master_loop (req # reqs) acc =
     (if truthy (req ! 8)
      then master_loop reqs (count_master (req ! 8) (req ! 5 = TextV st_completed) acc)
      else master_loop reqs acc)"

definition with_efficiency :: "mstats \<Rightarrow> mstats" where
  "with_efficiency st =
     (if ms_total st > 0
      then st\<lparr>ms_efficiency := Some (round2 (of_nat (ms_completed st) / of_nat (ms_total st) * 100))\<rparr>
      else st)"

definition master_efficiency :: "sqlval list list \<Rightarrow> (sqlval \<times> mstats) list" where
  "master_efficiency reqs = map (\<lambda>(k, st). (k, with_efficiency st)) (master_loop reqs [])"

definition total_parts_length :: "database \<Rightarrow> int" where
  \<comment> \<open>\<open>SELECT SUM(LENGTH(parts_ordered)) FROM comments\<close>, with \<open>or 0\<close> for the NULL of an
      empty sum\<close>
  "total_parts_length db =
     sum_list (map (\<lambda>c. case parts_ordered c of None \<Rightarrow> 0 | Some p \<Rightarrow> int (length p)) (comments db))"

definition performance_metrics_body :: "parser \<Rightarrow> connection \<Rightarrow> str option \<Rightarrow> str option \<Rightarrow> error + metrics" where
  "performance_metrics_body P conn start_date end_date =
     (case cursor conn of
        Inl e \<Rightarrow> Inl e
      | Inr db \<Rightarrow>
         (let reqs = map row_of (filtered_requests db start_date end_date)
          in if reqs = []
             then Inr [(''total_requests'', PInt 0),
                       (''requests_per_day'', PInt 0),
                       (''average_processing_time'', PInt 0),
                       (''master_efficiency'', PDict []),
                       (''total_parts_cost'', PInt 0)]
             else (case requests_per_day P start_date end_date (length reqs) of
                     Inl e \<Rightarrow> Inl e
                   | Inr per_day \<Rightarrow>
                      (case processing_times P reqs of
                         Inl e \<Rightarrow> Inl e
                       | Inr hs \<Rightarrow>
                          (case avg_processing_time hs of
                             Inl e \<Rightarrow> Inl e
                           | Inr avg \<Rightarrow>
                              Inr [(''total_requests'', PInt (int (length reqs))),
                                   (''requests_per_day'', per_day),
                                   (''average_processing_time_hours'', avg),
                                   (''master_efficiency'', PDict (master_efficiency reqs)),
                                   (''total_parts_cost'', PInt (total_parts_length db * 10))])))))"

definition get_performance_metrics :: "parser \<Rightarrow> connection \<Rightarrow> str option \<Rightarrow> str option \<Rightarrow> metrics" where
  \<comment> \<open>\<open>except Exception: return {}\<close>\<close>
  "get_performance_metrics P conn start_date end_date =
     (case performance_metrics_body P conn start_date end_date of Inl e \<Rightarrow> [] | Inr m \<Rightarrow> m)"


section \<open>Repository\<close>


datatype assignment =
    Set_status str
  | Set_updated_date str
  | Set_completion_date str
  | Set_master_name str
  | Set_deadline str

fun assign :: "assignment \<Rightarrow> request \<Rightarrow> request" where
  "assign (Set_status v) r = r\<lparr>status := v\<rparr>"
| "assign (Set_updated_date v) r = r\<lparr>updated_date := Some v\<rparr>"
| "assign (Set_completion_date v) r = r\<lparr>completion_date := Some v\<rparr>"
| "assign (Set_master_name v) r = r\<lparr>master_name := Some v\<rparr>"
| "assign (Set_deadline v) r = r\<lparr>deadline := Some v\<rparr>"

definition sql_update :: "assignment list \<Rightarrow> int \<Rightarrow> request list \<Rightarrow> request list \<times> nat" where
  \<comment> \<open>\<open>UPDATE requests SET fields WHERE id = ?\<close>: the new rows and the row count\<close>
  "sql_update field_list i rows =
     (map (\<lambda>r. if rid r = i then fold assign field_list r else r) rows,
      length (filter (\<lambda>r. rid r = i) rows))"

definition update_request_status ::
  "str \<Rightarrow> int \<Rightarrow> str \<Rightarrow> str option \<Rightarrow> database \<Rightarrow> bool \<times> database" where
  "update_request_status current_time req_id new_status mname db =
     (let fields0 = [Set_status new_status, Set_updated_date current_time];
          fields1 = (if new_status = st_ready \<or> new_status = st_completed
                     then fields0 @ [Set_completion_date current_time] else fields0);
          fields2 = (case mname of
                       None \<Rightarrow> fields1
                     | Some m \<Rightarrow> if m \<noteq> [] then fields1 @ [Set_master_name m] else fields1);
          res = sql_update fields2 req_id (requests db)
      in (snd res > 0, db\<lparr>requests := fst res\<rparr>))"



subsection \<open>Sequences of operations\<close>







subsection \<open>Search\<close>

definition lower_ascii :: "nat \<Rightarrow> nat" where
  "lower_ascii c = (if 65 \<le> c \<and> c \<le> 90 then c + 32 else c)"

fun like :: "str \<Rightarrow> str \<Rightarrow> bool" where
  \<comment> \<open>\<open>s LIKE pattern\<close> of the storage engine: \<open>%\<close> stands for any sequence of
      characters, \<open>_\<close> for any one character, and ASCII letters match in either case\<close>
  "like [] [] = True"
| "like [] (c # cs) = False"
| "like (p # ps) [] = (p = 37 \<and> like ps [])"
| "like (p # ps) (c # cs) =
     (if p = 37 then like ps (c # cs) \<or> like (p # ps) cs
      else if p = 95 then like ps cs
      else lower_ascii p = lower_ascii c \<and> like ps cs)"

fun digits :: "nat \<Rightarrow> str" where
  "digits n = (if n < 10 then [48 + n] else digits (n div 10) @ [48 + n mod 10])"

definition cast_text :: "int \<Rightarrow> str" where
  \<comment> \<open>\<open>CAST(id AS TEXT)\<close>\<close>
  "cast_text i = (if i < 0 then 45 # digits (nat (- i)) else digits (nat i))"

definition matches :: "str \<Rightarrow> request \<Rightarrow> bool" where
  "matches pattern r =
     (like pattern (cast_text (rid r)) \<or> like pattern (client_name r)
      \<or> like pattern (client_phone r) \<or> like pattern (device_model r))"

definition search_requests :: "str \<Rightarrow> database \<Rightarrow> request list" where
  \<comment> \<open>\<open>ORDER BY created_date DESC\<close>; the engine chooses the order of equal dates\<close>
  "search_requests search_term db =
     (let pattern = [37] @ search_term @ [37]
      in rev (sort_key created_date (filter (matches pattern) (requests db))))"

section \<open>Reference computations and sample data\<close>

text \<open>
  The average repair time as the specification words it: the mean of the hours between
  creation and completion over the requests that have a completion date, rounded to
  two decimals, and zero when there is none.
\<close>

definition repair_hours_of :: "parser \<Rightarrow> request \<Rightarrow> rat" where
  "repair_hours_of P r =
     hours_between (the (P Fmt_datetime (created_date r)))
                   (the (P Fmt_datetime (the (completion_date r))))"

definition average_repair_time_spec :: "parser \<Rightarrow> request list \<Rightarrow> rat" where
  "average_repair_time_spec P rs =
     (let done = filter (\<lambda>r. completion_date r \<noteq> None) rs
      in if done = [] then 0
         else round2 (sum_list (map (repair_hours_of P) done) / of_nat (length done)))"

definition parses :: "parser \<Rightarrow> request \<Rightarrow> bool" where
  \<comment> \<open>the timestamps of the request are well formed\<close>
  "parses P r =
     (P Fmt_datetime (created_date r) \<noteq> None \<and>
      (case completion_date r of None \<Rightarrow> True | Some c \<Rightarrow> P Fmt_datetime c \<noteq> None))"

definition scenario_request :: request where
  \<comment> \<open>a refrigerator taken in on 2024-01-01 at 10:00 and completed the next day at 15:00\<close>
  "scenario_request =
     \<lparr>rid = 1, created_date = u ''2024-01-01 10:00:00'',
      device_type = [1061, 1086, 1083, 1086, 1076, 1080, 1083, 1100, 1085, 1080, 1082],
      device_model = u ''Samsung RB-100'', problem_description = u ''no frost'',
      client_name = u ''Ivanov'', client_phone = u ''+79991234567'',
      status = st_completed, master_name = Some (u ''Petrov''), deadline = None,
      completion_date = Some (u ''2024-01-02 15:00:00''),
      updated_date = Some (u ''2024-01-02 15:00:00'')\<rparr>"

definition scenario_db :: database where
  "scenario_db =
     \<lparr>requests = [scenario_request], comments = [], request_seq = 1, comment_seq = 0\<rparr>"

definition deadline_request :: request where
  \<comment> \<open>the same request after its deadline was extended to a day, as the deadline dialog
      asks for it (YYYY-MM-DD)\<close>
  "deadline_request = scenario_request\<lparr>deadline := Some (u ''2024-01-10'')\<rparr>"

definition deadline_db :: database where
  "deadline_db =
     \<lparr>requests = [deadline_request], comments = [], request_seq = 1, comment_seq = 0\<rparr>"

definition parts_comment :: comment where
  "parts_comment =
     \<lparr>cid = 1, request_id = 1, comment_text = u ''ordered'',
      parts_ordered = Some (u ''compressor''), added_date = u ''2024-01-01 12:00:00'',
      author = u ''Petrov''\<rparr>"

definition parts_db :: database where
  "parts_db =
     \<lparr>requests = [scenario_request], comments = [parts_comment],
      request_seq = 1, comment_seq = 1\<rparr>"

definition parts_cost_spec :: "database \<Rightarrow> int" where
  \<comment> \<open>ten times the sum of the lengths of \<open>parts_ordered\<close> over all comments\<close>
  "parts_cost_spec db =
     10 * (\<Sum>c\<leftarrow>comments db. case parts_ordered c of None \<Rightarrow> 0 | Some p \<Rightarrow> int (length p))"

definition malformed_request :: request where
  \<comment> \<open>a completed request whose completion date is not a timestamp of the format\<close>
  "malformed_request =
     scenario_request\<lparr>rid := 2, completion_date := Some (u ''06.06.2023 00:00:00'')\<rparr>"

definition malformed_db :: database where
  "malformed_db =
     \<lparr>requests = [scenario_request, malformed_request], comments = [],
      request_seq = 2, comment_seq = 0\<rparr>"


section \<open>Invariants and sample data of the repository\<close>




text \<open>
  A row after a status change, as the specification words it: the status and
  \<open>updated_date\<close> are written, \<open>completion_date\<close> is stamped exactly for the statuses
  ReadyForPickup and Completed, and \<open>master_name\<close> is written only when a non-empty
  name is supplied.
\<close>

definition status_fields :: "str \<Rightarrow> str \<Rightarrow> str option \<Rightarrow> request \<Rightarrow> request" where
  "status_fields now s m r =
     r\<lparr>status := s, updated_date := Some now,
       completion_date := (if s = st_ready \<or> s = st_completed then Some now else completion_date r),
       master_name := (if given m then m else master_name r)\<rparr>"



definition sample_done :: request where
  "sample_done =
     \<lparr>rid = 1, created_date = u ''2024-01-01 10:00:00'', device_type = u ''Fridge'',
      device_model = u ''Atlant'', problem_description = u ''noise'',
      client_name = u ''Kuznetsov'', client_phone = u ''89991234569'',
      status = st_completed, master_name = Some (u ''Petrov''), deadline = None,
      completion_date = Some (u ''2024-01-02 15:00:00''),
      updated_date = Some (u ''2024-01-02 15:00:00'')\<rparr>"



definition sample_store :: database where
  "sample_store = \<lparr>requests = [sample_done], comments = [], request_seq = 1, comment_seq = 0\<rparr>"

section \<open>Substring search as the specification words it\<close>

definition is_prefix :: "str \<Rightarrow> str \<Rightarrow> bool" where
  "is_prefix t s = (take (length t) s = t)"

fun occurs :: "str \<Rightarrow> str \<Rightarrow> bool" where
  "occurs t [] = is_prefix t []"
| "occurs t (c # cs) = (is_prefix t (c # cs) \<or> occurs t cs)"

definition occurs_ci :: "str \<Rightarrow> str \<Rightarrow> bool" where
  "occurs_ci t s = occurs (map lower_ascii t) (map lower_ascii s)"

definition contains_spec :: "str \<Rightarrow> request \<Rightarrow> bool" where
  "contains_spec t r =
     (occurs t (cast_text (rid r)) \<or> occurs t (client_name r)
      \<or> occurs t (client_phone r) \<or> occurs t (device_model r))"

definition contains_ci :: "str \<Rightarrow> request \<Rightarrow> bool" where
  "contains_ci t r =
     (occurs_ci t (cast_text (rid r)) \<or> occurs_ci t (client_name r)
      \<or> occurs_ci t (client_phone r) \<or> occurs_ci t (device_model r))"

definition ivanov :: str where
  \<comment> \<open>the surname of the search scenario, in Cyrillic\<close>
  "ivanov = [1048, 1074, 1072, 1085, 1086, 1074]"

definition search_db :: database where
  "search_db =
     \<lparr>requests =
        [scenario_request\<lparr>client_name := ivanov @ u '' Ivan'', device_model := u ''Atlant''\<rparr>,
         scenario_request\<lparr>rid := 2, created_date := u ''2024-02-01 09:00:00'',
                           client_name := u ''Petrov'', device_model := u ''TV '' @ ivanov\<rparr>,
         scenario_request\<lparr>rid := 3, created_date := u ''2024-03-01 09:00:00'',
                           client_name := u ''Sidorov'', device_model := u ''Sony''\<rparr>],
      comments = [], request_seq = 3, comment_seq = 0\<rparr>"

section \<open>Evaluation on concrete data\<close>

lemma floor_numeral_div: "\<lfloor>(numeral a :: rat) / numeral b\<rfloor> = numeral a div numeral b"
  using floor_divide_of_int_eq [of "numeral a" "numeral b", where ?'a = rat] by simp

lemmas iso_eval = u_def is_digit_def num2_def num4_def days_in_month_def is_leap_def
  ymd_seconds_def days_before_year_def days_before_month_def upto.simps

lemmas round_eval = round2_def round_half_even_def Let_def floor_numeral_div

section \<open>Average repair time\<close>



lemma scenario_parses: "parses strptime_iso scenario_request"
  by (simp add: parses_def scenario_request_def iso_eval)

lemma scenario_spec_value: "average_repair_time_spec strptime_iso (requests scenario_db) = 29"
  by (simp add: average_repair_time_spec_def scenario_db_def scenario_request_def
      repair_hours_of_def hours_between_def iso_eval round_eval)



text \<open>
  C3. The claim as stated fails: with one well-formed completed request (29 hours) and
  one whose completion date does not parse, the mean over the well-formed requests is
  29, and the code returns 0.
\<close>

theorem C3_malformed_date_counterexample:
  "calculate_average_repair_time strptime_iso (Live malformed_db)
     \<noteq> average_repair_time_spec strptime_iso
         (filter (parses strptime_iso) (requests malformed_db))"
proof -
  have bad: "\<not> parses strptime_iso malformed_request"
    by (simp add: parses_def malformed_request_def scenario_request_def iso_eval)
  have "filter (parses strptime_iso) (requests malformed_db) = requests scenario_db"
    by (simp add: malformed_db_def scenario_db_def scenario_parses bad)
  then have spec: "average_repair_time_spec strptime_iso
         (filter (parses strptime_iso) (requests malformed_db)) = 29"
    by (simp add: scenario_spec_value)
  have code: "calculate_average_repair_time strptime_iso (Live malformed_db) = 0"
    by (simp add: calculate_average_repair_time_def average_repair_time_body_def
        completed_requests_def malformed_db_def malformed_request_def scenario_request_def
        iso_eval)
  show ?thesis by (simp add: spec code)
qed

lemma repair_times_abort:
  assumes "(c, d) \<in> set rows" and "strptime P c Fmt_datetime = Inl e1 \<or> strptime P d Fmt_datetime = Inl e2"
  shows "\<exists>e. repair_times P rows = Inl e"
  using assms
proof (induction rows)
  case Nil
  then show ?case by simp
next
  case (Cons row rows)
  obtain c' d' where row: "row = (c', d')" by (cases row)
  show ?case
  proof (cases "(c, d) = row")
    case True
    with row Cons.prems(2) show ?thesis
      by (auto split: sum.splits)
  next
    case False
    with Cons have "\<exists>e. repair_times P rows = Inl e" by simp
    with row show ?thesis by (auto split: sum.splits)
  qed
qed

lemma device_step_abort:
  assumes "request ! 1 = TextV st_completed" and "truthy (request ! 4)"
    and "strptime P (request ! 3) Fmt_datetime = Inl e1 \<or> strptime P (request ! 4) Fmt_datetime = Inl e2"
  shows "\<exists>e. device_step P request st = Inl e"
  using assms by (auto simp: device_step_def Let_def split: sum.splits)

lemma device_loop_abort:
  assumes "request \<in> set rows" and "\<And>st. \<exists>e. device_step P request st = Inl e"
  shows "\<exists>e. device_loop P rows acc = Inl e"
  using assms(1)
proof (induction rows arbitrary: acc)
  case Nil
  then show ?case by simp
next
  case (Cons row rows)
  show ?case
  proof (cases "row = request")
    case True
    let ?st = "case map_of acc (request ! 0) of
                  None \<Rightarrow> \<lparr>ds_total = 0, ds_completed = 0, ds_repair_times = [], ds_problems = []\<rparr>
                | Some st \<Rightarrow> st"
    from assms(2) obtain e where "device_step P request ?st = Inl e" by blast
    with True show ?thesis by (simp add: Let_def)
  next
    case False
    with Cons.prems have "request \<in> set rows" by simp
    from Cons.IH [OF this] show ?thesis
      by (auto simp: Let_def split: sum.splits)
  qed
qed

lemma statistics_by_device_abort:
  assumes "r \<in> set (requests db)" and "status r = st_completed"
    and "completion_date r = Some c" and "c \<noteq> []" and "\<not> parses P r"
  shows "calculate_request_statistics_by_device P (Live db) = []"
proof -
  let ?row = "[TextV (device_type r), TextV (status r), TextV (problem_description r),
               TextV (created_date r), opt_cell (completion_date r)]"
  have mem: "?row \<in> set (device_rows db)"
    using assms(1) by (auto simp: device_rows_def)
  have "strptime P (?row ! 3) Fmt_datetime = Inl ValueError
        \<or> strptime P (?row ! 4) Fmt_datetime = Inl ValueError"
    using assms(3,5) by (auto simp: parses_def)
  then have "\<And>st. \<exists>e. device_step P ?row st = Inl e"
    using assms(2,3,4) by (intro device_step_abort) simp_all
  with mem have "\<exists>e. device_loop P (device_rows db) [] = Inl e"
    by (rule device_loop_abort)
  then show ?thesis
    by (auto simp: calculate_request_statistics_by_device_def statistics_by_device_body_def)
qed

text \<open>
  C3, as amended.  When the creation date or the completion date of a request that has
  a completion date fails to parse, \<open>calculate_average_repair_time\<close> abandons the whole
  aggregation and returns its default 0, whatever the other requests are; and when that
  request is Completed and its completion date is not empty,
  \<open>calculate_request_statistics_by_device\<close> returns its default, the empty dictionary.
\<close>

theorem C3_malformed_date_aborts:
  assumes "r \<in> set (requests db)" and "completion_date r = Some c" and "\<not> parses P r"
  shows "calculate_average_repair_time P (Live db) = 0
         \<and> (status r = st_completed \<and> c \<noteq> [] \<longrightarrow>
              calculate_request_statistics_by_device P (Live db) = [])"
proof
  have row: "(TextV (created_date r), TextV c) \<in> set (completed_requests db)"
    using assms(1,2) by (force simp: completed_requests_def)
  have "strptime P (TextV (created_date r)) Fmt_datetime = Inl ValueError
        \<or> strptime P (TextV c) Fmt_datetime = Inl ValueError"
    using assms(2,3) by (auto simp: parses_def)
  with row have "\<exists>e. repair_times P (completed_requests db) = Inl e"
    by (rule repair_times_abort)
  then show "calculate_average_repair_time P (Live db) = 0"
    by (auto simp: calculate_average_repair_time_def average_repair_time_body_def)
  show "status r = st_completed \<and> c \<noteq> [] \<longrightarrow>
          calculate_request_statistics_by_device P (Live db) = []"
    using assms statistics_by_device_abort by blast
qed

theorem C3_malformed_date_aborts_witness:
  "malformed_request \<in> set (requests malformed_db)
   \<and> completion_date malformed_request = Some (u ''06.06.2023 00:00:00'')
   \<and> \<not> parses strptime_iso malformed_request
   \<and> status malformed_request = st_completed
   \<and> u ''06.06.2023 00:00:00'' \<noteq> []
   \<and> calculate_average_repair_time strptime_iso (Live malformed_db) = 0
   \<and> calculate_request_statistics_by_device strptime_iso (Live malformed_db) = []"
proof -
  have 1: "malformed_request \<in> set (requests malformed_db)"
    by (simp add: malformed_db_def)
  have 2: "completion_date malformed_request = Some (u ''06.06.2023 00:00:00'')"
    by (simp add: malformed_request_def)
  have 3: "\<not> parses strptime_iso malformed_request"
    by (simp add: parses_def malformed_request_def scenario_request_def iso_eval)
  have 4: "status malformed_request = st_completed"
    by (simp add: malformed_request_def scenario_request_def)
  have 5: "u ''06.06.2023 00:00:00'' \<noteq> []" by (simp add: u_def)
  from C3_malformed_date_aborts [OF 1 2 3] 1 2 3 4 5 show ?thesis by blast
qed

section \<open>Performance metrics\<close>

lemmas metrics_eval = get_performance_metrics_def performance_metrics_body_def
  filtered_requests_def date_filter_def given_def fstr_def row_of_def requests_per_day_def
  avg_processing_time_def master_efficiency_def with_efficiency_def total_parts_length_def
  mean_def hours_between_def

lemmas sample_eval = scenario_db_def scenario_request_def deadline_db_def
  deadline_request_def parts_db_def parts_comment_def empty_db_def st_completed_def

lemma scenario_metrics:
  "get_performance_metrics strptime_iso (Live scenario_db) None None =
     [(''total_requests'', PInt 1), (''requests_per_day'', PInt 1),
      (''average_processing_time_hours'', PInt 0),
      (''master_efficiency'',
       PDict [(TextV (u ''Petrov''),
               \<lparr>ms_completed = 0, ms_total = 1, ms_efficiency = Some 0\<rparr>)]),
      (''total_parts_cost'', PInt 0)]"
  by (simp add: metrics_eval sample_eval iso_eval round_eval)

text \<open>
  C1. The claim fails on the code.  \<open>get_performance_metrics\<close> reads column 9 of the
  fetched row as the completion date, and column 9 of the table is the deadline.  For the
  request created on 2024-01-01 10:00:00 and completed on 2024-01-02 15:00:00, with no
  deadline, the mean of the claim is 29 and the code returns 0; once the deadline is a
  day (2024-01-10), parsing it as a timestamp fails and the code returns the empty
  dictionary.
\<close>

theorem C1_processing_time_reads_deadline:
  "filtered_requests scenario_db None None = [scenario_request]
   \<and> completion_date scenario_request = Some (u ''2024-01-02 15:00:00'')
   \<and> average_repair_time_spec strptime_iso (filtered_requests scenario_db None None) = 29
   \<and> map_of (get_performance_metrics strptime_iso (Live scenario_db) None None)
        ''average_processing_time_hours'' = Some (PInt 0)
   \<and> row_of scenario_request ! 9 = opt_cell (deadline scenario_request)
   \<and> row_of scenario_request ! 10 = opt_cell (completion_date scenario_request)
   \<and> get_performance_metrics strptime_iso (Live deadline_db) None None = []"
proof (intro conjI)
  show "filtered_requests scenario_db None None = [scenario_request]"
    by (simp add: filtered_requests_def date_filter_def given_def scenario_db_def)
  then show "average_repair_time_spec strptime_iso (filtered_requests scenario_db None None) = 29"
    using scenario_spec_value by (simp add: scenario_db_def)
  show "completion_date scenario_request = Some (u ''2024-01-02 15:00:00'')"
    by (simp add: scenario_request_def)
  show "map_of (get_performance_metrics strptime_iso (Live scenario_db) None None)
        ''average_processing_time_hours'' = Some (PInt 0)"
    by (simp add: scenario_metrics)
  show "row_of scenario_request ! 9 = opt_cell (deadline scenario_request)"
    by (simp add: row_of_def)
  show "row_of scenario_request ! 10 = opt_cell (completion_date scenario_request)"
    by (simp add: row_of_def)
  show "get_performance_metrics strptime_iso (Live deadline_db) None None = []"
    by (simp add: metrics_eval sample_eval iso_eval)
qed

text \<open>
  C2. The claim fails on the code.  \<open>get_performance_metrics\<close> compares column 5 of the
  fetched row with the Completed label, and column 5 of the table is the client's name,
  not the status (column 7).  For one request of the master Petrov whose status is
  Completed, the claim gives completed = 1 and efficiency = 100; the code returns
  completed = 0 and efficiency = 0.  The grouping by master and the totals are as the
  claim says.
\<close>

theorem C2_master_efficiency_reads_client_name:
  "filtered_requests scenario_db None None = [scenario_request]
   \<and> master_name scenario_request = Some (u ''Petrov'')
   \<and> status scenario_request = st_completed
   \<and> row_of scenario_request ! 5 = TextV (client_name scenario_request)
   \<and> row_of scenario_request ! 7 = TextV (status scenario_request)
   \<and> map_of (get_performance_metrics strptime_iso (Live scenario_db) None None)
        ''master_efficiency''
      = Some (PDict [(TextV (u ''Petrov''),
                      \<lparr>ms_completed = 0, ms_total = 1, ms_efficiency = Some 0\<rparr>)])"
proof (intro conjI)
  show "filtered_requests scenario_db None None = [scenario_request]"
    by (simp add: filtered_requests_def date_filter_def given_def scenario_db_def)
  show "master_name scenario_request = Some (u ''Petrov'')"
    by (simp add: scenario_request_def)
  show "status scenario_request = st_completed"
    by (simp add: scenario_request_def)
  show "row_of scenario_request ! 5 = TextV (client_name scenario_request)"
    by (simp add: row_of_def)
  show "row_of scenario_request ! 7 = TextV (status scenario_request)"
    by (simp add: row_of_def)
  show "map_of (get_performance_metrics strptime_iso (Live scenario_db) None None)
        ''master_efficiency''
      = Some (PDict [(TextV (u ''Petrov''),
                      \<lparr>ms_completed = 0, ms_total = 1, ms_efficiency = Some 0\<rparr>)])"
    by (simp add: scenario_metrics)
qed

text \<open>
  C4. The claim fails on the code.  No analytics operation raises, and each returns its
  default when a query or a parse fails; but on an empty filtered set
  \<open>get_performance_metrics\<close> returns the average under the key
  \<open>average_processing_time\<close>, where the non-empty case and the claim have
  \<open>average_processing_time_hours\<close>.
\<close>

theorem C4_empty_metrics_key:
  "filtered_requests empty_db None None = []
   \<and> map fst (get_performance_metrics P (Live empty_db) None None)
      = [''total_requests'', ''requests_per_day'', ''average_processing_time'',
         ''master_efficiency'', ''total_parts_cost'']
   \<and> map_of (get_performance_metrics P (Live empty_db) None None)
        ''average_processing_time_hours'' = None
   \<and> map fst (get_performance_metrics strptime_iso (Live scenario_db) None None)
      = [''total_requests'', ''requests_per_day'', ''average_processing_time_hours'',
         ''master_efficiency'', ''total_parts_cost'']
   \<and> calculate_average_repair_time P Broken = 0
   \<and> calculate_request_statistics_by_device P Broken = []
   \<and> calculate_status_distribution Broken = []
   \<and> get_performance_metrics P Broken None None = []"
proof (intro conjI)
  show "filtered_requests empty_db None None = []"
    by (simp add: filtered_requests_def empty_db_def)
  show "map fst (get_performance_metrics P (Live empty_db) None None)
      = [''total_requests'', ''requests_per_day'', ''average_processing_time'',
         ''master_efficiency'', ''total_parts_cost'']"
    by (simp add: get_performance_metrics_def performance_metrics_body_def
        filtered_requests_def empty_db_def)
  show "map_of (get_performance_metrics P (Live empty_db) None None)
        ''average_processing_time_hours'' = None"
    by (simp add: get_performance_metrics_def performance_metrics_body_def
        filtered_requests_def empty_db_def)
  show "map fst (get_performance_metrics strptime_iso (Live scenario_db) None None)
      = [''total_requests'', ''requests_per_day'', ''average_processing_time_hours'',
         ''master_efficiency'', ''total_parts_cost'']"
    by (simp add: scenario_metrics)
  show "calculate_average_repair_time P Broken = 0"
    by (simp add: calculate_average_repair_time_def average_repair_time_body_def)
  show "calculate_request_statistics_by_device P Broken = []"
    by (simp add: calculate_request_statistics_by_device_def statistics_by_device_body_def)
  show "calculate_status_distribution Broken = []"
    by (simp add: calculate_status_distribution_def status_distribution_body_def)
  show "get_performance_metrics P Broken None None = []"
    by (simp add: get_performance_metrics_def performance_metrics_body_def)
qed

text \<open>
  C10. The claim as stated fails: with the arguments \<open>2024\<close> and \<open>2025\<close> the filter
  selects the stored request, the day span cannot be computed from the arguments, and the
  operation returns the empty dictionary, which has no \<open>total_parts_cost\<close>.
\<close>

theorem C10_parts_cost_counterexample:
  "filtered_requests parts_db (Some (u ''2024'')) (Some (u ''2025'')) \<noteq> []
   \<and> parts_cost_spec parts_db = 100
   \<and> map_of (get_performance_metrics strptime_iso (Live parts_db)
                (Some (u ''2024'')) (Some (u ''2025''))) ''total_parts_cost''
       \<noteq> Some (PInt (parts_cost_spec parts_db))"
proof (intro conjI)
  show "filtered_requests parts_db (Some (u ''2024'')) (Some (u ''2025'')) \<noteq> []"
    by (simp add: metrics_eval sample_eval iso_eval less_eq_list_code)
  show "parts_cost_spec parts_db = 100"
    by (simp add: parts_cost_spec_def sample_eval u_def)
  have "get_performance_metrics strptime_iso (Live parts_db)
          (Some (u ''2024'')) (Some (u ''2025'')) = []"
    by (simp add: metrics_eval sample_eval iso_eval less_eq_list_code)
  then show "map_of (get_performance_metrics strptime_iso (Live parts_db)
                (Some (u ''2024'')) (Some (u ''2025''))) ''total_parts_cost''
       \<noteq> Some (PInt (parts_cost_spec parts_db))"
    by simp
qed

lemma parts_cost_or_empty:
  assumes "filtered_requests db start_date end_date \<noteq> []"
  shows "get_performance_metrics P (Live db) start_date end_date = []
         \<or> map_of (get_performance_metrics P (Live db) start_date end_date)
              ''total_parts_cost'' = Some (PInt (parts_cost_spec db))"
  using assms
  by (simp add: get_performance_metrics_def performance_metrics_body_def Let_def
      parts_cost_spec_def total_parts_length_def mult.commute split: sum.splits)

text \<open>
  C10, as amended.  For every choice of arguments and every non-empty filtered set,
  \<open>get_performance_metrics\<close> either returns the empty dictionary (a date failed to parse
  on the way) or returns a \<open>total_parts_cost\<close> of ten times the sum of the lengths of
  \<open>parts_ordered\<close> over all comments of the database, whatever the date window is;
  so two calls with different windows that both return metrics for a non-empty filtered
  set return the same \<open>total_parts_cost\<close>.
\<close>

theorem C10_parts_cost:
  assumes "filtered_requests db start_date end_date \<noteq> []"
  shows "(get_performance_metrics P (Live db) start_date end_date = []
          \<or> map_of (get_performance_metrics P (Live db) start_date end_date)
               ''total_parts_cost'' = Some (PInt (parts_cost_spec db)))
         \<and> (filtered_requests db start_date' end_date' \<noteq> []
              \<and> get_performance_metrics P (Live db) start_date end_date \<noteq> []
              \<and> get_performance_metrics P (Live db) start_date' end_date' \<noteq> []
             \<longrightarrow> map_of (get_performance_metrics P (Live db) start_date end_date)
                    ''total_parts_cost''
                 = map_of (get_performance_metrics P (Live db) start_date' end_date')
                    ''total_parts_cost'')"
  using parts_cost_or_empty [OF assms, of P]
    parts_cost_or_empty [of db start_date' end_date' P]
  by auto

theorem C10_parts_cost_witness:
  "filtered_requests parts_db None None \<noteq> []
   \<and> filtered_requests parts_db (Some (u ''2024-01-01'')) (Some (u ''2024-01-31'')) \<noteq> []
   \<and> map_of (get_performance_metrics strptime_iso (Live parts_db) None None)
        ''total_parts_cost'' = Some (PInt 100)
   \<and> map_of (get_performance_metrics strptime_iso (Live parts_db)
               (Some (u ''2024-01-01'')) (Some (u ''2024-01-31'')))
        ''total_parts_cost'' = Some (PInt 100)"
proof -
  have f1: "filtered_requests parts_db None None \<noteq> []"
    by (simp add: metrics_eval sample_eval)
  have f2: "filtered_requests parts_db (Some (u ''2024-01-01'')) (Some (u ''2024-01-31'')) \<noteq> []"
    by (simp add: metrics_eval sample_eval iso_eval less_eq_list_code)
  have n1: "get_performance_metrics strptime_iso (Live parts_db) None None \<noteq> []"
    by (simp add: metrics_eval sample_eval iso_eval round_eval)
  have n2: "get_performance_metrics strptime_iso (Live parts_db)
               (Some (u ''2024-01-01'')) (Some (u ''2024-01-31'')) \<noteq> []"
    by (simp add: metrics_eval sample_eval iso_eval round_eval less_eq_list_code)
  have c: "parts_cost_spec parts_db = 100"
    by (simp add: parts_cost_spec_def sample_eval u_def)
  from C10_parts_cost [OF f1, of strptime_iso] n1 c
  have 1: "map_of (get_performance_metrics strptime_iso (Live parts_db) None None)
        ''total_parts_cost'' = Some (PInt 100)" by simp
  from C10_parts_cost [OF f2, of strptime_iso] n2 c
  have 2: "map_of (get_performance_metrics strptime_iso (Live parts_db)
               (Some (u ''2024-01-01'')) (Some (u ''2024-01-31'')))
        ''total_parts_cost'' = Some (PInt 100)" by simp
  show ?thesis using f1 f2 1 2 by simp
qed

section \<open>Status distribution\<close>


















section \<open>Repository operations\<close>

lemma update_request_status_rows:
  "requests (snd (update_request_status now i s m db))
     = map (\<lambda>r. if rid r = i then status_fields now s m r else r) (requests db)"
  by (cases m)
     (auto simp: update_request_status_def sql_update_def status_fields_def given_def Let_def)

lemma update_request_status_rest:
  "comments (snd (update_request_status now i s m db)) = comments db"
  "request_seq (snd (update_request_status now i s m db)) = request_seq db"
  "comment_seq (snd (update_request_status now i s m db)) = comment_seq db"
  by (simp_all add: update_request_status_def Let_def)

lemma update_request_status_result:
  "fst (update_request_status now i s m db) = (i \<in> set (map rid (requests db)))"
  by (auto simp: update_request_status_def sql_update_def Let_def filter_empty_conv)
































lemma update_missing:
  assumes "i \<notin> set (map rid (requests db))"
  shows "snd (update_request_status now i s m db) = db"
proof -
  have "map (\<lambda>r. if rid r = i then status_fields now s m r else r) (requests db) = requests db"
    using assms by (intro map_idI) auto
  then have "requests (snd (update_request_status now i s m db)) = requests db"
    by (simp only: update_request_status_rows)
  then show ?thesis
    by (simp add: update_request_status_def Let_def)
qed

text \<open>
  C8. \<open>update_request_status\<close> returns whether a row has the identifier; every such
  row gets the new status and the clock reading as \<open>updated_date\<close>, the clock reading as
  \<open>completion_date\<close> exactly when the new status is ReadyForPickup or Completed
  (whatever the earlier completion date was), and the master's name only when a
  non-empty one is supplied; all other rows and the comments are unchanged, and a
  missing identifier leaves the store as it was.
\<close>

theorem C8_update_request_status:
  "fst (update_request_status now i s m db) = (i \<in> set (map rid (requests db)))
   \<and> requests (snd (update_request_status now i s m db))
       = map (\<lambda>r. if rid r = i then status_fields now s m r else r) (requests db)
   \<and> comments (snd (update_request_status now i s m db)) = comments db
   \<and> (i \<notin> set (map rid (requests db)) \<longrightarrow> snd (update_request_status now i s m db) = db)"
  using update_request_status_result update_request_status_rows
    update_request_status_rest(1) update_missing
  by blast

theorem C8_update_request_status_witness:
  "1 \<in> set (map rid (requests sample_store))
   \<and> fst (update_request_status (u ''2024-01-05 12:00:00'') 1 st_ready None sample_store)
   \<and> requests (snd (update_request_status (u ''2024-01-05 12:00:00'') 1 st_ready None sample_store))
       = [sample_done\<lparr>status := st_ready,
                       updated_date := Some (u ''2024-01-05 12:00:00''),
                       completion_date := Some (u ''2024-01-05 12:00:00'')\<rparr>]
   \<and> master_name sample_done = Some (u ''Petrov'')
   \<and> 7 \<notin> set (map rid (requests sample_store))
   \<and> \<not> fst (update_request_status (u ''2024-01-05 12:00:00'') 7 st_ready None sample_store)
   \<and> snd (update_request_status (u ''2024-01-05 12:00:00'') 7 st_ready None sample_store)
       = sample_store"
proof -
  have a: "1 \<in> set (map rid (requests sample_store))"
    and b: "7 \<notin> set (map rid (requests sample_store))"
    by (simp_all add: sample_store_def sample_done_def)
  note inst1 = C8_update_request_status
    [of "u ''2024-01-05 12:00:00''" 1 st_ready None sample_store]
  note inst7 = C8_update_request_status
    [of "u ''2024-01-05 12:00:00''" 7 st_ready None sample_store]
  from inst1 a have 1: "fst (update_request_status (u ''2024-01-05 12:00:00'') 1 st_ready None sample_store)"
    by blast
  from inst1 have 2: "requests (snd (update_request_status (u ''2024-01-05 12:00:00'') 1 st_ready None sample_store))
       = [sample_done\<lparr>status := st_ready,
                       updated_date := Some (u ''2024-01-05 12:00:00''),
                       completion_date := Some (u ''2024-01-05 12:00:00'')\<rparr>]"
    by (simp add: sample_store_def sample_done_def status_fields_def given_def)
  from inst7 b have 3: "\<not> fst (update_request_status (u ''2024-01-05 12:00:00'') 7 st_ready None sample_store)"
    and 4: "snd (update_request_status (u ''2024-01-05 12:00:00'') 7 st_ready None sample_store) = sample_store"
    by blast+
  have 5: "master_name sample_done = Some (u ''Petrov'')" by (simp add: sample_done_def)
  show ?thesis using a b 1 2 3 4 5 by blast
qed

section \<open>Search\<close>

lemma occurs_iff: "occurs t s = (\<exists>pre post. s = pre @ t @ post)"
proof (induction s)
  case Nil
  show ?case by (auto simp: is_prefix_def)
next
  case (Cons c cs)
  have p: "is_prefix t (c # cs) = (\<exists>post. c # cs = t @ post)"
    unfolding is_prefix_def by (metis append_eq_conv_conj)
  show ?case
  proof
    assume "occurs t (c # cs)"
    then consider "is_prefix t (c # cs)" | "occurs t cs" by auto
    then show "\<exists>pre post. c # cs = pre @ t @ post"
    proof cases
      case 1
      with p obtain post where "c # cs = [] @ t @ post" by auto
      then show ?thesis by blast
    next
      case 2
      with Cons obtain pre post where "cs = pre @ t @ post" by auto
      then have "c # cs = (c # pre) @ t @ post" by simp
      then show ?thesis by blast
    qed
  next
    assume "\<exists>pre post. c # cs = pre @ t @ post"
    then obtain pre post where e: "c # cs = pre @ t @ post" by auto
    show "occurs t (c # cs)"
    proof (cases pre)
      case Nil
      with e have "\<exists>post. c # cs = t @ post" by auto
      with p have "is_prefix t (c # cs)" by simp
      then show ?thesis by simp
    next
      case (Cons a pre')
      with e have "cs = pre' @ t @ post" by simp
      with Cons.IH show ?thesis by auto
    qed
  qed
qed

lemma like_percent: "like [37] s"
  by (induction s) simp_all

lemma like_prefix:
  assumes "37 \<notin> set t" and "95 \<notin> set t"
  shows "like (t @ [37]) s = is_prefix (map lower_ascii t) (map lower_ascii s)"
  using assms
proof (induction t arbitrary: s)
  case Nil
  show ?case by (simp add: like_percent is_prefix_def)
next
  case (Cons p ps)
  then have IH: "\<And>s. like (ps @ [37]) s = is_prefix (map lower_ascii ps) (map lower_ascii s)"
    and p: "p \<noteq> 37" "p \<noteq> 95"
    by auto
  show ?case
  proof (cases s)
    case Nil
    with p show ?thesis by (simp add: is_prefix_def)
  next
    case (Cons c cs)
    with p IH show ?thesis by (auto simp: is_prefix_def)
  qed
qed

lemma like_contains:
  assumes "37 \<notin> set t" and "95 \<notin> set t"
  shows "like ([37] @ t @ [37]) s = occurs_ci t s"
proof (induction s)
  case Nil
  show ?case using like_prefix [OF assms, of "[]"] by (simp add: occurs_ci_def)
next
  case (Cons c cs)
  have "like ([37] @ t @ [37]) (c # cs) = (like (t @ [37]) (c # cs) \<or> like ([37] @ t @ [37]) cs)"
    by simp
  with Cons like_prefix [OF assms, of "c # cs"] show ?case
    by (simp add: occurs_ci_def)
qed

lemma matches_contains:
  assumes "37 \<notin> set t" and "95 \<notin> set t"
  shows "matches ([37] @ t @ [37]) r = contains_ci t r"
  unfolding matches_def contains_ci_def like_contains [OF assms] ..

text \<open>
  C9, as amended.  For a search term that contains neither \<open>%\<close> nor \<open>_\<close>,
  \<open>search_requests\<close> returns exactly the requests in which the term occurs, up to the
  case of ASCII letters, as a substring of the identifier written in decimal, of the
  client's name, of the client's phone or of the device model; and for every term the
  result is in descending order of the creation date.
\<close>

theorem C9_search_requests:
  "(37 \<notin> set t \<and> 95 \<notin> set t \<longrightarrow>
      mset (search_requests t db) = filter_mset (contains_ci t) (mset (requests db)))
   \<and> sorted (rev (map created_date (search_requests t db)))"
proof (intro conjI impI)
  assume "37 \<notin> set t \<and> 95 \<notin> set t"
  then have "matches ([37] @ t @ [37]) = contains_ci t"
    using matches_contains by blast
  then show "mset (search_requests t db) = filter_mset (contains_ci t) (mset (requests db))"
    by (simp add: search_requests_def Let_def)
next
  show "sorted (rev (map created_date (search_requests t db)))"
    by (simp add: search_requests_def Let_def rev_map)
qed

lemmas search_eval = search_requests_def matches_def cast_text_def lower_ascii_def
  search_db_def scenario_request_def ivanov_def u_def less_eq_list_code Let_def

lemma search_atlant: "map rid (search_requests (u ''atlant'') search_db) = [1]"
  by (simp add: search_eval)

lemma search_underscore: "map rid (search_requests (u ''_'') search_db) = [3, 2, 1]"
  by (simp add: search_eval)

lemma search_ivanov: "map rid (search_requests ivanov search_db) = [2, 1]"
  by (simp add: search_eval)

lemma spec_atlant: "filter (contains_spec (u ''atlant'')) (requests search_db) = []"
  by (simp add: contains_spec_def is_prefix_def search_eval)

lemma spec_underscore: "filter (contains_spec (u ''_'')) (requests search_db) = []"
  by (simp add: contains_spec_def is_prefix_def search_eval)

text \<open>
  C9. The claim as stated fails: \<open>atlant\<close> occurs in no column of the stored requests
  and the request of model \<open>Atlant\<close> is returned, since \<open>LIKE\<close> ignores the case of
  ASCII letters; and \<open>_\<close> occurs in no column and every request is returned, since
  \<open>_\<close> in the term is a wildcard.
\<close>

theorem C9_search_counterexample:
  "map rid (search_requests (u ''atlant'') search_db) = [1]
   \<and> map rid (filter (contains_spec (u ''atlant'')) (requests search_db)) = []
   \<and> map rid (search_requests (u ''_'') search_db) = [3, 2, 1]
   \<and> map rid (filter (contains_spec (u ''_'')) (requests search_db)) = []
   \<and> set (search_requests (u ''atlant'') search_db)
       \<noteq> set (filter (contains_spec (u ''atlant'')) (requests search_db))
   \<and> set (search_requests (u ''_'') search_db)
       \<noteq> set (filter (contains_spec (u ''_'')) (requests search_db))"
proof -
  have ne: "search_requests (u ''atlant'') search_db \<noteq> []"
    using search_atlant by fastforce
  have 1: "map rid (filter (contains_spec (u ''atlant'')) (requests search_db)) = []"
    by (simp add: spec_atlant)
  have 2: "map rid (filter (contains_spec (u ''_'')) (requests search_db)) = []"
    by (simp add: spec_underscore)
  have 3: "set (search_requests (u ''atlant'') search_db)
       \<noteq> set (filter (contains_spec (u ''atlant'')) (requests search_db))"
    using ne by (simp add: spec_atlant)
  have ne': "search_requests (u ''_'') search_db \<noteq> []"
    using search_underscore by fastforce
  have 4: "set (search_requests (u ''_'') search_db)
       \<noteq> set (filter (contains_spec (u ''_'')) (requests search_db))"
    using ne' by (simp add: spec_underscore)
  show ?thesis using search_atlant search_underscore 1 2 3 4 by blast
qed

theorem C9_search_requests_witness:
  "37 \<notin> set ivanov \<and> 95 \<notin> set ivanov
   \<and> map rid (search_requests ivanov search_db) = [2, 1]
   \<and> mset (search_requests ivanov search_db)
       = filter_mset (contains_ci ivanov) (mset (requests search_db))
   \<and> sorted (rev (map created_date (search_requests ivanov search_db)))"
proof -
  have w: "37 \<notin> set ivanov \<and> 95 \<notin> set ivanov" by (simp add: ivanov_def)
  from C9_search_requests [of ivanov search_db] w
  have "mset (search_requests ivanov search_db)
       = filter_mset (contains_ci ivanov) (mset (requests search_db))"
    and "sorted (rev (map created_date (search_requests ivanov search_db)))"
    by blast+
  with w search_ivanov show ?thesis by blast
qed

end
